theory Spec2Isabelle
  imports Main "HOL-Library.AList" "HOL-Library.Word"
begin

section \<open>Python values shared by the modules\<close>

text \<open>
  Exceptions are values, each carrying its message. \<open>ValidationError\<close> is what pydantic
  raises at the end of a failed construction; it carries the messages of all the errors it
  collected. The four \<open>zarr.errors\<close> exceptions carry the path that was opened.
\<close>

datatype error =
    ValueError string
  | ValidationError "string list"
  | TypeError string
  | AttributeError string
  | ArrayNotFoundError string
  | ContainsGroupError string
  | GroupNotFoundError string
  | ContainsArrayError string

text \<open>
  A Python \<open>dict\<close> keeps its keys in insertion order: assigning to an existing key keeps
  the key's position, assigning to a new key appends it. That is \<open>AList.update\<close> on an
  association list.
\<close>

type_synonym ('k, 'v) dict = "('k \<times> 'v) list"

definition dict_set :: "'k \<Rightarrow> 'v \<Rightarrow> ('k, 'v) dict \<Rightarrow> ('k, 'v) dict" where
  "dict_set k v d = AList.update k v d"

definition dict_keys :: "('k, 'v) dict \<Rightarrow> 'k list" where
  "dict_keys d = map fst d"

section \<open>well\_types.py\<close>

record WellImage =
  path :: string
  acquisition :: "int option"

record WellMeta =
  images :: "WellImage list"
  version :: "string option"

definition acquisition_error :: error where
  "acquisition_error = ValueError
     (''Cannot get acquisition paths for Zarr files without '' @
      [CHR 0x27] @ ''acquisition'' @ [CHR 0x27] @ '' metadata at the well level'')"

text \<open>\<open>acquisition_dict[k].append(p)\<close> on a \<open>defaultdict(list)\<close>.\<close>

definition defaultdict_append :: "int \<Rightarrow> string \<Rightarrow> (int, string list) dict \<Rightarrow> (int, string list) dict" where
  "defaultdict_append k p d =
     (case map_of d k of
        None \<Rightarrow> dict_set k [p] d
      | Some ps \<Rightarrow> dict_set k (ps @ [p]) d)"

text \<open>The loop of \<open>WellMeta.get_acquisition_paths\<close>, with the dictionary built so far.\<close>

fun acquisition_loop :: "(int, string list) dict \<Rightarrow> WellImage list \<Rightarrow> error + (int, string list) dict" where
  "acquisition_loop d [] = Inr d"
| "acquisition_loop d (img # rest) =
     (case acquisition img of
        None \<Rightarrow> Inl acquisition_error
      | Some k \<Rightarrow> acquisition_loop (defaultdict_append k (WellImage.path img) d) rest)"

definition get_acquisition_paths :: "WellMeta \<Rightarrow> error + (int, string list) dict" where
  "get_acquisition_paths self = acquisition_loop [] (WellMeta.images self)"

text \<open>The paths of the images that carry acquisition id \<open>k\<close>, in the order of the list.\<close>

definition paths_of :: "int \<Rightarrow> WellImage list \<Rightarrow> string list" where
  "paths_of k ims = map WellImage.path (filter (\<lambda>im. acquisition im = Some k) ims)"

section \<open>Rendering Python values in messages\<close>

text \<open>\<open>str(n)\<close> for an integer: decimal digits, a leading minus sign when negative.\<close>

definition digit_char :: "nat \<Rightarrow> char" where
  "digit_char n = ''0123456789'' ! (n mod 10)"

function str_nat :: "nat \<Rightarrow> string" where
  "str_nat n = (if n < 10 then [digit_char n] else str_nat (n div 10) @ [digit_char n])"
  by pat_completeness auto
termination
  by (relation "measure id") auto

definition str_int :: "int \<Rightarrow> string" where
  "str_int i = (if i < 0 then ''-'' @ str_nat (nat (- i)) else str_nat (nat i))"

text \<open>\<open>sep.join(xs)\<close>.\<close>

fun join :: "string \<Rightarrow> string list \<Rightarrow> string" where
  "join sep [] = []"
| "join sep [x] = x"
| "join sep (x # y # ys) = x @ sep @ join sep (y # ys)"

text \<open>What an f-string prints for a list and for a tuple of integers.\<close>

definition repr_list :: "int list \<Rightarrow> string" where
  "repr_list xs = ''['' @ join '', '' (map str_int xs) @ '']''"

definition repr_tuple :: "int list \<Rightarrow> string" where
  "repr_tuple xs =
     (case xs of
        [x] \<Rightarrow> ''('' @ str_int x @ '',)''
      | _ \<Rightarrow> ''('' @ join '', '' (map str_int xs) @ '')'')"

section \<open>image\_label.py\<close>

type_synonym Uint8 = "8 word"
type_synonym RGBA = "Uint8 \<times> Uint8 \<times> Uint8 \<times> Uint8"

text \<open>\<open>Counter(values)\<close>: the elements in order of first occurrence, each with its count.\<close>

fun Counter_loop :: "('a, nat) dict \<Rightarrow> 'a list \<Rightarrow> ('a, nat) dict" where
  "Counter_loop counts [] = counts"
| "Counter_loop counts (x # xs) =
     Counter_loop (dict_set x (case map_of counts x of None \<Rightarrow> 1 | Some c \<Rightarrow> c + 1) counts) xs"

definition Counter :: "'a list \<Rightarrow> ('a, nat) dict" where
  "Counter values = Counter_loop [] values"

definition duplicates :: "'a list \<Rightarrow> ('a, nat) dict" where
  "duplicates values = filter (\<lambda>(k, v). v > 1) (Counter values)"

record Color =
  label_value :: int
  rgba :: "RGBA option"

record Source =
  image :: "string option"

record Property =
  label_value :: int

text \<open>
  A validator may call \<open>warnings.warn\<close> before it returns or raises: its result is the
  list of warnings it emitted, paired with the error or the value.
\<close>

type_synonym 'a warned = "string list \<times> (error + 'a)"

definition colors_none_msg :: string where
  "colors_none_msg =
     ''The field `colors` is `None`.`colors` should be a list of '' @
     ''label descriptors.''"

definition duplicated_msg :: "int list \<Rightarrow> string" where
  "duplicated_msg ks =
     ''Duplicated label-value: '' @ repr_tuple ks @ ''.'' @
     ''label-values must be unique across elements of `colors`.''"

definition parse_colors :: "Color list option \<Rightarrow> (Color list option) warned" where
  "parse_colors colors =
     (case colors of
        None \<Rightarrow> ([colors_none_msg], Inr colors)
      | Some cs \<Rightarrow>
          (let dupes = duplicates (map Color.label_value cs)
           in if length dupes > 0
              then ([], Inl (ValueError (duplicated_msg (dict_keys dupes))))
              else ([], Inr colors)))"

record ImageLabel =
  colors :: "Color list option"
  properties :: "Property list option"
  source :: "Source option"
  version :: "string option"

definition inconsistent_msg :: "int list \<Rightarrow> int list \<Rightarrow> string" where
  "inconsistent_msg prop_label_value color_label_value =
     ''Inconsistent `label_value` attributes in `colors` and `properties`.'' @
     ''The `properties` attributes have `label_values` '' @ repr_list prop_label_value @ '', '' @
     ''The `colors` attributes have `label_values` '' @ repr_list color_label_value @ '', ''"

definition parse_imagelabel :: "ImageLabel \<Rightarrow> error + ImageLabel" where
  "parse_imagelabel model =
     (case (colors model, properties model) of
        (Some cs, Some ps) \<Rightarrow>
          (let prop_label_value = map Property.label_value ps;
               color_label_value = map Color.label_value cs
           in if set color_label_value \<noteq> set prop_label_value
              then Inl (ValueError (inconsistent_msg prop_label_value color_label_value))
              else Inr model)
      | _ \<Rightarrow> Inr model)"

text \<open>
  Constructing an \<open>ImageLabel\<close>. The keyword arguments are the input: for each field,
  \<open>None\<close> when the key is not supplied and \<open>Some v\<close> when it is supplied with value \<open>v\<close>
  (which may itself be Python's \<open>None\<close>). The values of \<open>colors\<close>, \<open>properties\<close> and
  \<open>source\<close> are taken as already of the annotated type; \<open>version\<close> is any string or
  \<open>None\<close>.

  pydantic validates the fields in declaration order and collects the errors of all of
  them; a field that is not supplied takes its default without running the field's
  validators (pydantic's \<open>validate_default\<close> is off unless configured), and a field
  declared without a default is required. The \<open>after\<close> model validator runs only when
  no field failed. A \<open>ValueError\<close> raised by a validator becomes an entry of the
  \<open>ValidationError\<close>.
\<close>

record ImageLabel_kwargs =
  kw_colors :: "Color list option option"
  kw_properties :: "Property list option option"
  kw_source :: "Source option option"
  kw_version :: "string option option"

definition field_required_msg :: string where
  "field_required_msg = ''Field required''"

definition version_literal_msg :: string where
  "version_literal_msg = ''Input should be '' @ [CHR 0x27] @ ''0.4'' @ [CHR 0x27]"

text \<open>The field \<open>colors: Annotated[tuple[Color, ...] | None, AfterValidator(_parse_colors)] = None\<close>.\<close>

definition validate_colors :: "Color list option option \<Rightarrow> (Color list option) warned" where
  "validate_colors kw = (case kw of None \<Rightarrow> ([], Inr None) | Some v \<Rightarrow> parse_colors v)"

text \<open>The fields \<open>properties\<close> and \<open>source\<close>, with default \<open>None\<close> and no validator.\<close>

definition validate_default_None :: "'a option option \<Rightarrow> 'a option" where
  "validate_default_None kw = (case kw of None \<Rightarrow> None | Some v \<Rightarrow> v)"

text \<open>The field \<open>version: Literal["0.4"] | None\<close>, which has no default.\<close>

definition validate_version :: "string option option \<Rightarrow> error + string option" where
  "validate_version kw =
     (case kw of
        None \<Rightarrow> Inl (ValueError field_required_msg)
      | Some None \<Rightarrow> Inr None
      | Some (Some s) \<Rightarrow> if s = ''0.4'' then Inr (Some s) else Inl (ValueError version_literal_msg))"

text \<open>The entries a failed field contributes to the \<open>ValidationError\<close>.\<close>

definition error_msgs :: "error + 'a \<Rightarrow> string list" where
  "error_msgs r = (case r of Inl (ValueError m) \<Rightarrow> [m] | _ \<Rightarrow> [])"

definition ImageLabel_init :: "ImageLabel_kwargs \<Rightarrow> ImageLabel warned" where
  "ImageLabel_init kw =
     (let (warns, c) = validate_colors (kw_colors kw);
          p = validate_default_None (kw_properties kw);
          s = validate_default_None (kw_source kw);
          v = validate_version (kw_version kw)
      in case (c, v) of
           (Inr c', Inr v') \<Rightarrow>
             (case parse_imagelabel \<lparr>colors = c', properties = p, source = s, version = v'\<rparr> of
                Inl (ValueError m) \<Rightarrow> (warns, Inl (ValidationError [m]))
              | r \<Rightarrow> (warns, r))
         | _ \<Rightarrow> (warns, Inl (ValidationError (error_msgs c @ error_msgs v))))"

section \<open>The multiscale metadata and the node specifications\<close>

text \<open>
  Modelled from the spec: the classes \<open>Axis\<close>, \<open>Dataset\<close> and \<open>Multiscale\<close> of
  \<open>ome_zarr_models.v04.multiscales\<close> are imported by \<open>image.py\<close> and are not part of the
  sources at hand. They are records with the fields \<open>image.py\<close> reads (\<open>axes\<close>,
  \<open>datasets\<close>, \<open>path\<close>); a record may be extended by further fields. What makes a
  \<open>Multiscale\<close> valid is checked where it is parsed, not here.
\<close>

record Axis =
  name :: string
  axis_type :: "string option"
  unit :: "string option"

record Dataset =
  path :: string

record Multiscale =
  axes :: "Axis list"
  datasets :: "Dataset list"

text \<open>
  The attributes of a zarr group are a JSON object. Of that object the entries under the
  keys this code reads are kept, each absent (\<open>None\<close>) or parsed: \<open>multiscales\<close> and
  \<open>labels\<close>. Other entries, such as \<open>omero\<close>, are carried along without being read
  and are left to the extension of the record.
\<close>

record Attributes =
  multiscales_entry :: "Multiscale list option"
  labels_entry :: "string list option"

text \<open>
  \<open>ArraySpec\<close> and \<open>GroupSpec\<close> of \<open>pydantic_zarr.v2\<close>: an array has a shape, a group has
  attributes and members, a dictionary from names to specifications or \<open>None\<close>.
\<close>

datatype spec =
    ArraySpec "nat list"
  | GroupSpec Attributes "(string, spec) dict option"

type_synonym flat = "(string, spec) dict"

text \<open>\<open>d.update(e)\<close>, and \<open>{**d, **e}\<close>: the entries of \<open>e\<close> assigned to \<open>d\<close> in order.\<close>

definition dict_update :: "('k, 'v) dict \<Rightarrow> ('k, 'v) dict \<Rightarrow> ('k, 'v) dict" where
  "dict_update d e = foldl (\<lambda>acc (k, v). dict_set k v acc) d e"

text \<open>
  \<open>to_flat\<close> of \<open>pydantic_zarr\<close>: every node of the tree under its path from the root,
  segments joined by a slash, a group stripped of its members; the entries are ordered by
  the length of the key.
\<close>

fun to_flat :: "spec \<Rightarrow> string \<Rightarrow> flat"
  and to_flat_members :: "flat \<Rightarrow> (string, spec) dict \<Rightarrow> string \<Rightarrow> flat" where
  "to_flat (ArraySpec sh) root_path = [(root_path, ArraySpec sh)]"
| "to_flat (GroupSpec a None) root_path = [(root_path, GroupSpec a None)]"
| "to_flat (GroupSpec a (Some ms)) root_path =
     sort_key (\<lambda>(k, v). length k)
       (dict_set root_path (GroupSpec a None) (to_flat_members [] ms root_path))"
| "to_flat_members result [] root_path = result"
| "to_flat_members result ((nm, v) # rest) root_path =
     to_flat_members (dict_update result (to_flat v (root_path @ ''/'' @ nm))) rest root_path"

text \<open>
  \<open>GroupSpec.from_flat\<close> of \<open>pydantic_zarr\<close> builds the tree back from a flat dictionary.
  The entry under the empty key is the root and gives the attributes (it must not be an
  array; without it the attributes are empty); every other key must start with a slash;
  its first segment names a member of the root. An array directly under the root becomes
  a member; everything else is collected per first segment, with that segment removed
  from the key, and the collection is turned into a member group by the same procedure.
  Of a group in the dictionary only the attributes are used: its members are those the
  keys below it give. Groups are listed before arrays. Here a key is the list of its
  segments.
\<close>

fun split_sep :: "char \<Rightarrow> string \<Rightarrow> string list" where
  "split_sep c [] = [[]]"
| "split_sep c (x # xs) =
     (if x = c then [] # split_sep c xs
      else (case split_sep c xs of p # ps \<Rightarrow> (x # p) # ps | [] \<Rightarrow> [[x]]))"

type_synonym parts_dict = "(string list, spec) dict"

datatype placed = Invalid | MemberArray string spec | SubMember string "string list" spec

fun place :: "string list \<times> spec \<Rightarrow> placed" where
  "place (r # nm # rest, ArraySpec sh) =
     (if r \<noteq> [] then Invalid
      else if rest = [] then MemberArray nm (ArraySpec sh)
      else SubMember nm ([] # rest) (ArraySpec sh))"
| "place (r # nm # rest, GroupSpec a m) =
     (if r \<noteq> [] then Invalid else SubMember nm ([] # rest) (GroupSpec a m))"
| "place (_, v) = Invalid"

definition dict_of_items :: "('k \<times> 'v) list \<Rightarrow> ('k, 'v) dict" where
  "dict_of_items items = dict_update [] items"

text \<open>The elements of a list in order of first occurrence.\<close>

fun uniq :: "'a list \<Rightarrow> 'a list" where
  "uniq [] = []"
| "uniq (x # xs) = x # filter (\<lambda>y. y \<noteq> x) (uniq xs)"

definition non_root :: "parts_dict \<Rightarrow> parts_dict" where
  "non_root data = filter (\<lambda>(k, v). k \<noteq> [[]]) data"

definition member_arrays :: "parts_dict \<Rightarrow> (string, spec) dict" where
  "member_arrays data =
     dict_of_items (concat (map (\<lambda>e. case place e of MemberArray nm v \<Rightarrow> [(nm, v)] | _ \<Rightarrow> [])
                              (non_root data)))"

definition sub_names :: "parts_dict \<Rightarrow> string list" where
  "sub_names data =
     uniq (concat (map (\<lambda>e. case place e of SubMember nm k v \<Rightarrow> [nm] | _ \<Rightarrow> [])
                     (non_root data)))"

definition submembers :: "parts_dict \<Rightarrow> string \<Rightarrow> parts_dict" where
  "submembers data nm =
     dict_of_items
       (concat (map (\<lambda>e. case place e of
                            SubMember nm' k v \<Rightarrow> if nm' = nm then [(k, v)] else []
                          | _ \<Rightarrow> [])
                  (non_root data)))"

definition first_invalid :: "parts_dict \<Rightarrow> string list option" where
  "first_invalid data = map_option fst (find (\<lambda>e. place e = Invalid) (non_root data))"

definition empty_attrs :: Attributes where
  "empty_attrs = \<lparr>multiscales_entry = None, labels_entry = None\<rparr>"

definition root_attrs :: "parts_dict \<Rightarrow> error + Attributes" where
  "root_attrs data =
     (case map_of data [[]] of
        None \<Rightarrow> Inr empty_attrs
      | Some (ArraySpec sh) \<Rightarrow>
          Inl (ValueError ''Got an ArraySpec as the root node. This is invalid.'')
      | Some (GroupSpec a m) \<Rightarrow> Inr a)"

definition invalid_path_msg :: "string list \<Rightarrow> string" where
  "invalid_path_msg key =
     ''Invalid path: '' @ join ''/'' key @ '' does not start with '' @
     [CHR 0x22] @ ''/'' @ [CHR 0x22] @ ''.''"

text \<open>The results of a list of calls: the first error, or all the values.\<close>

fun collect :: "(error + 'a) list \<Rightarrow> error + 'a list" where
  "collect [] = Inr []"
| "collect (Inl e # rs) = Inl e"
| "collect (Inr x # rs) = (case collect rs of Inl e \<Rightarrow> Inl e | Inr xs \<Rightarrow> Inr (x # xs))"

definition depth :: "parts_dict \<Rightarrow> nat" where
  "depth data = Max (insert 0 (length ` fst ` set data))"

function from_flat_group :: "parts_dict \<Rightarrow> error + spec" where
  "from_flat_group data =
     (case root_attrs data of
        Inl e \<Rightarrow> Inl e
      | Inr a \<Rightarrow>
          (case first_invalid data of
             Some key \<Rightarrow> Inl (ValueError (invalid_path_msg key))
           | None \<Rightarrow>
               (case collect (map (\<lambda>nm. case from_flat_group (submembers data nm) of
                                           Inl e \<Rightarrow> Inl e | Inr g \<Rightarrow> Inr (nm, g))
                                (sub_names data)) of
                  Inl e \<Rightarrow> Inl e
                | Inr member_groups \<Rightarrow>
                    Inr (GroupSpec a (Some (dict_update member_groups (member_arrays data)))))))"
  by pat_completeness auto
termination
proof (relation "measure depth")
  show "wf (measure depth)" by simp
next
  fix data :: parts_dict and a :: Attributes and nm :: string
  assume nm: "nm \<in> set (sub_names data)"
  have set_uniq: "set (uniq xs) = set xs" for xs :: "string list"
    by (induction xs) auto
  have keys: "fst ` set (dict_update d e) \<subseteq> fst ` set d \<union> fst ` set e"
    for d e :: parts_dict
  proof (induction e arbitrary: d)
    case Nil
    then show ?case by (simp add: dict_update_def)
  next
    case (Cons x e)
    obtain k v where x: "x = (k, v)" by (cases x)
    have "fst ` set (dict_update (dict_set k v d) e) \<subseteq> fst ` set (dict_set k v d) \<union> fst ` set e"
      by (rule Cons.IH)
    then show ?case
      by (auto simp: x dict_update_def dict_set_def dom_update)
  qed
  have shorter: "length k < length (fst e)" if "place e = SubMember n k v" for e n k v
    using that by (cases e rule: place.cases) (auto split: if_splits)
  have le_depth: "length (fst e) \<le> depth data" if "e \<in> set data" for e
    using that by (simp add: depth_def)
  have pos: "0 < depth data"
  proof -
    let ?f = "\<lambda>e. case place e of SubMember n k v \<Rightarrow> [n] | _ \<Rightarrow> []"
    from nm obtain e where e: "e \<in> set (non_root data)" and "nm \<in> set (?f e)"
      by (auto simp: sub_names_def set_uniq)
    then have "\<exists>k v. place e = SubMember nm k v"
      by (cases "place e") auto
    then have "0 < length (fst e)"
      by (auto dest!: shorter)
    moreover from e have "e \<in> set data"
      by (simp add: non_root_def)
    ultimately show ?thesis
      using le_depth [of e] by (rule_tac less_le_trans)
  qed
  have sub_key: "\<exists>e \<in> set data. length k < length (fst e)"
    if "k \<in> fst ` set (submembers data nm)" for k
  proof -
    let ?f = "\<lambda>e. case place e of
                     SubMember nm' k v \<Rightarrow> if nm' = nm then [(k, v)] else [] | _ \<Rightarrow> []"
    from that keys [of "[]" "concat (map ?f (non_root data))"]
    have "k \<in> fst ` set (concat (map ?f (non_root data)))"
      by (auto simp: submembers_def dict_of_items_def)
    then obtain e v where e: "e \<in> set (non_root data)" and kv: "(k, v) \<in> set (?f e)"
      by auto
    from kv have "\<exists>nm'. place e = SubMember nm' k v"
      by (cases "place e") (auto split: if_splits)
    with e show ?thesis
      by (auto simp: non_root_def dest: shorter)
  qed
  have "n < depth data" if "n \<in> insert 0 (length ` fst ` set (submembers data nm))" for n
  proof (cases "n = 0")
    case True
    with pos show ?thesis by simp
  next
    case False
    with that obtain k where "k \<in> fst ` set (submembers data nm)" "n = length k" by auto
    with sub_key [of k] obtain e' where "e' \<in> set data" "n < length (fst e')" by auto
    with le_depth [of e'] show ?thesis by simp
  qed
  then have "depth (submembers data nm) < depth data"
    unfolding depth_def [of "submembers data nm"] by simp
  then show "(submembers data nm, data) \<in> measure depth"
    by simp
qed

declare from_flat_group.simps [simp del]

definition from_flat :: "flat \<Rightarrow> error + spec" where
  "from_flat data = from_flat_group (map (\<lambda>(k, v). (split_sep CHR ''/'' k, v)) data)"

section \<open>labels.py\<close>

record LabelsAttrs =
  labels :: "string list"

record Labels =
  attributes :: LabelsAttrs
  members :: "(string, spec) dict option"

text \<open>Constructing \<open>Labels\<close>: the attributes must have the required field \<open>labels\<close>.\<close>

definition Labels_init :: "Attributes \<Rightarrow> (string, spec) dict option \<Rightarrow> error + Labels" where
  "Labels_init a ms =
     (case labels_entry a of
        None \<Rightarrow> Inl (ValidationError [field_required_msg])
      | Some ls \<Rightarrow> Inr \<lparr>attributes = \<lparr>labels = ls\<rparr>, members = ms\<rparr>)"

section \<open>The zarr store\<close>

text \<open>
  What the store holds at a path: nothing, an array with its shape, or a group with its
  attributes and the members \<open>GroupSpec.from_zarr\<close> finds under it. The store is a
  function of the path it is asked for, exactly as the caller passes it.
\<close>

datatype node =
    Absent
  | ArrayNode "nat list"
  | GroupNode Attributes "(string, spec) dict option"

record zarr_Group =
  store :: "string \<Rightarrow> node"
  path :: string
  attrs :: Attributes

text \<open>\<open>zarr.open_array(store, path, mode="r")\<close>, returning the shape of the array.\<close>

definition open_array :: "(string \<Rightarrow> node) \<Rightarrow> string \<Rightarrow> error + nat list" where
  "open_array st p =
     (case st p of
        ArrayNode sh \<Rightarrow> Inr sh
      | GroupNode a ms \<Rightarrow> Inl (ContainsGroupError p)
      | Absent \<Rightarrow> Inl (ArrayNotFoundError p))"

text \<open>\<open>zarr.open_group(store, path, mode="r")\<close>.\<close>

definition open_group :: "(string \<Rightarrow> node) \<Rightarrow> string \<Rightarrow> error + Attributes \<times> (string, spec) dict option" where
  "open_group st p =
     (case st p of
        GroupNode a ms \<Rightarrow> Inr (a, ms)
      | ArrayNode sh \<Rightarrow> Inl (ContainsArrayError p)
      | Absent \<Rightarrow> Inl (GroupNotFoundError p))"

section \<open>image.py\<close>

record ImageAttrs =
  multiscales :: "Multiscale list"

record Image =
  attributes :: ImageAttrs
  members :: "(string, spec) dict option"

text \<open>
  \<open>ImageAttrs.model_validate\<close>: the field \<open>multiscales\<close> is required and has
  \<open>min_length=1\<close>. The optional field \<open>omero\<close> is not read by any function here.
\<close>

definition min_length_msg :: string where
  "min_length_msg = ''List should have at least 1 item after validation, not 0''"

definition ImageAttrs_validate :: "Attributes \<Rightarrow> error + ImageAttrs" where
  "ImageAttrs_validate a =
     (case multiscales_entry a of
        None \<Rightarrow> Inl (ValidationError [field_required_msg])
      | Some ms \<Rightarrow>
          if length ms < 1 then Inl (ValidationError [min_length_msg])
          else Inr \<lparr>multiscales = ms\<rparr>)"

text \<open>What \<open>model_dump\<close> makes of the attributes of an image.\<close>

definition ImageAttrs_dump :: "ImageAttrs \<Rightarrow> Attributes" where
  "ImageAttrs_dump a =
     \<lparr>multiscales_entry = Some (multiscales a), labels_entry = None\<rparr>"

definition Image_to_flat :: "Image \<Rightarrow> flat" where
  "Image_to_flat data = to_flat (GroupSpec (ImageAttrs_dump (attributes data)) (members data)) []"

text \<open>\<open>s.lstrip("/")\<close>.\<close>

definition lstrip_slash :: "string \<Rightarrow> string" where
  "lstrip_slash s = dropWhile (\<lambda>c. c = CHR ''/'') s"

definition is_a_group_msg :: "string \<Rightarrow> string" where
  "is_a_group_msg p = ''The node at '' @ p @ '' is a group, not an array.''"

definition rank_mismatch_msg :: "nat \<Rightarrow> string \<Rightarrow> nat \<Rightarrow> string" where
  "rank_mismatch_msg multiscale_ndim p arr_ndim =
     ''The multiscale metadata has '' @ str_nat multiscale_ndim @ '' axes '' @
     ''which does not match the dimensionality of the array '' @
     ''found in this group at '' @ p @ '' ('' @ str_nat arr_ndim @ ''). '' @
     ''The number of axes must match the array dimensionality.''"

definition does_not_exist_msg :: "string \<Rightarrow> string" where
  "does_not_exist_msg p =
     ''The multiscale metadata references an array that does not '' @
     ''exist in this group: '' @ p"

text \<open>
  The body of the inner loop of \<open>_check_arrays_compatible\<close>, for one dataset. The lookup
  in \<open>flat_self\<close> raises \<open>KeyError\<close> when the key is missing, which the \<open>except\<close> clause
  turns into the \<open>ValueError\<close> of the last branch.
\<close>

definition check_dataset :: "flat \<Rightarrow> nat \<Rightarrow> Dataset \<Rightarrow> error + unit" where
  "check_dataset flat_self multiscale_ndim dataset =
     (case map_of flat_self (''/'' @ lstrip_slash (Dataset.path dataset)) of
        Some (GroupSpec a m) \<Rightarrow> Inl (ValueError (is_a_group_msg (Dataset.path dataset)))
      | Some (ArraySpec sh) \<Rightarrow>
          (let arr_ndim = length sh
           in if arr_ndim \<noteq> multiscale_ndim
              then Inl (ValueError
                     (rank_mismatch_msg multiscale_ndim (Dataset.path dataset) arr_ndim))
              else Inr ())
      | None \<Rightarrow> Inl (ValueError (does_not_exist_msg (Dataset.path dataset))))"

fun check_datasets :: "flat \<Rightarrow> nat \<Rightarrow> Dataset list \<Rightarrow> error + unit" where
  "check_datasets flat_self multiscale_ndim [] = Inr ()"
| "check_datasets flat_self multiscale_ndim (dataset # rest) =
     (case check_dataset flat_self multiscale_ndim dataset of
        Inl e \<Rightarrow> Inl e
      | Inr _ \<Rightarrow> check_datasets flat_self multiscale_ndim rest)"

fun check_multiscales :: "flat \<Rightarrow> Multiscale list \<Rightarrow> error + unit" where
  "check_multiscales flat_self [] = Inr ()"
| "check_multiscales flat_self (multiscale # rest) =
     (case check_datasets flat_self (length (axes multiscale)) (datasets multiscale) of
        Inl e \<Rightarrow> Inl e
      | Inr _ \<Rightarrow> check_multiscales flat_self rest)"

definition check_arrays_compatible :: "Image \<Rightarrow> error + Image" where
  "check_arrays_compatible data =
     (let multimeta = multiscales (attributes data);
          flat_self = Image_to_flat data
      in case check_multiscales flat_self multimeta of
           Inl e \<Rightarrow> Inl e
         | Inr _ \<Rightarrow> Inr data)"

text \<open>
  Constructing an \<open>Image\<close> from attributes and members: pydantic validates the
  attributes as \<open>ImageAttrs\<close>, then runs the \<open>after\<close> model validator
  \<open>_check_arrays_compatible\<close>, whose \<open>ValueError\<close> it reports as a \<open>ValidationError\<close>.
\<close>

definition Image_init :: "Attributes \<Rightarrow> (string, spec) dict option \<Rightarrow> error + Image" where
  "Image_init a ms =
     (case ImageAttrs_validate a of
        Inl e \<Rightarrow> Inl e
      | Inr ia \<Rightarrow>
          (case check_arrays_compatible \<lparr>attributes = ia, members = ms\<rparr> of
             Inl (ValueError m) \<Rightarrow> Inl (ValidationError [m])
           | r \<Rightarrow> r))"

definition no_array_msg :: "string \<Rightarrow> string" where
  "no_array_msg array_path =
     ''Expected to find an array at '' @ array_path @ '', '' @
     ''but no array was found there.''"

definition found_group_msg :: "string \<Rightarrow> string" where
  "found_group_msg array_path =
     ''Expected to find an array at '' @ array_path @ '', '' @
     ''but a group was found there instead.''"

text \<open>The body of the inner loop of \<open>Image.from_zarr\<close>, for one dataset.\<close>

definition resolve_dataset :: "zarr_Group \<Rightarrow> flat \<Rightarrow> Dataset \<Rightarrow> error + flat" where
  "resolve_dataset grp members_tree_flat dataset =
     (let array_path = zarr_Group.path grp @ ''/'' @ Dataset.path dataset
      in case open_array (store grp) array_path of
           Inl (ArrayNotFoundError p) \<Rightarrow> Inl (ValueError (no_array_msg array_path))
         | Inl (ContainsGroupError p) \<Rightarrow> Inl (ValueError (found_group_msg array_path))
         | Inl e \<Rightarrow> Inl e
         | Inr sh \<Rightarrow> Inr (dict_set (''/'' @ Dataset.path dataset) (ArraySpec sh) members_tree_flat))"

fun resolve_datasets :: "zarr_Group \<Rightarrow> flat \<Rightarrow> Dataset list \<Rightarrow> error + flat" where
  "resolve_datasets grp members_tree_flat [] = Inr members_tree_flat"
| "resolve_datasets grp members_tree_flat (dataset # rest) =
     (case resolve_dataset grp members_tree_flat dataset of
        Inl e \<Rightarrow> Inl e
      | Inr members_tree_flat' \<Rightarrow> resolve_datasets grp members_tree_flat' rest)"

fun resolve_multiscales :: "zarr_Group \<Rightarrow> flat \<Rightarrow> Multiscale list \<Rightarrow> error + flat" where
  "resolve_multiscales grp members_tree_flat [] = Inr members_tree_flat"
| "resolve_multiscales grp members_tree_flat (multiscale # rest) =
     (case resolve_datasets grp members_tree_flat (datasets multiscale) of
        Inl e \<Rightarrow> Inl e
      | Inr members_tree_flat' \<Rightarrow> resolve_multiscales grp members_tree_flat' rest)"

text \<open>
  The \<open>try\<close> block for the labels: the group is opened at the path \<open>"labels"\<close>; only
  \<open>GroupNotFoundError\<close> is caught.
\<close>

definition resolve_labels :: "zarr_Group \<Rightarrow> flat \<Rightarrow> error + flat" where
  "resolve_labels grp members_tree_flat =
     (case open_group (store grp) ''labels'' of
        Inr (a, ms) \<Rightarrow> Inr (dict_set ''/labels'' (GroupSpec a ms) members_tree_flat)
      | Inl (GroupNotFoundError p) \<Rightarrow> Inr members_tree_flat
      | Inl e \<Rightarrow> Inl e)"

text \<open>The dictionary \<open>members_tree_flat\<close> as it is handed to \<open>GroupSpec.from_flat\<close>.\<close>

definition members_tree_flat_of :: "zarr_Group \<Rightarrow> ImageAttrs \<Rightarrow> error + flat" where
  "members_tree_flat_of grp multi_meta =
     (case resolve_multiscales grp [] (multiscales multi_meta) of
        Inl e \<Rightarrow> Inl e
      | Inr members_tree_flat \<Rightarrow> resolve_labels grp members_tree_flat)"

definition spec_members :: "spec \<Rightarrow> (string, spec) dict option" where
  "spec_members s = (case s of GroupSpec a ms \<Rightarrow> ms | ArraySpec sh \<Rightarrow> None)"

definition from_zarr :: "zarr_Group \<Rightarrow> error + Image" where
  "from_zarr grp =
     (case ImageAttrs_validate (attrs grp) of
        Inl e \<Rightarrow> Inl e
      | Inr multi_meta \<Rightarrow>
          (case members_tree_flat_of grp multi_meta of
             Inl e \<Rightarrow> Inl e
           | Inr members_tree_flat \<Rightarrow>
               (case from_flat members_tree_flat of
                  Inl e \<Rightarrow> Inl e
                | Inr members_normalized \<Rightarrow>
                    Image_init (attrs grp) (spec_members members_normalized))))"

text \<open>The property \<open>Image.labels\<close>.\<close>

definition Image_labels :: "Image \<Rightarrow> error + Labels option" where
  "Image_labels self =
     (case members self of
        None \<Rightarrow> Inl (TypeError ''argument of type NoneType is not iterable'')
      | Some ms \<Rightarrow>
          (case map_of ms ''labels'' of
             None \<Rightarrow> Inr None
           | Some (ArraySpec sh) \<Rightarrow> Inl (AttributeError ''ArraySpec object has no attribute members'')
           | Some (GroupSpec a m) \<Rightarrow>
               (case Labels_init a m of Inl e \<Rightarrow> Inl e | Inr l \<Rightarrow> Inr (Some l))))"

section \<open>Values for the examples\<close>

text \<open>
  The group of the test \<open>test_from_zarr_missing_array\<close>: a group at the path
  \<open>broken\<close> whose metadata declares the axes \<open>x\<close> and \<open>y\<close> and the datasets \<open>s0\<close> and
  \<open>s1\<close>, in a store that holds an array of shape \<open>(10, 10)\<close> and one of shape \<open>(5, 5)\<close>
  under it.
\<close>

definition example_attrs :: Attributes where
  "example_attrs =
     \<lparr>multiscales_entry =
        Some [\<lparr>axes = [\<lparr>name = ''x'', axis_type = Some ''space'', unit = None\<rparr>,
                       \<lparr>name = ''y'', axis_type = Some ''space'', unit = None\<rparr>],
               datasets = [\<lparr>Dataset.path = ''s0''\<rparr>, \<lparr>Dataset.path = ''s1''\<rparr>]\<rparr>],
      labels_entry = None\<rparr>"

definition example_store :: "string \<Rightarrow> node" where
  "example_store p =
     (if p = ''broken/s0'' then ArrayNode [10, 10]
      else if p = ''broken/s1'' then ArrayNode [5, 5]
      else Absent)"

definition example_group :: "(string \<Rightarrow> node) \<Rightarrow> zarr_Group" where
  "example_group st = \<lparr>store = st, path = ''broken'', attrs = example_attrs\<rparr>"

text \<open>A labels group whose attributes list the given names.\<close>

definition labels_node :: "string list \<Rightarrow> node" where
  "labels_node ls = GroupNode \<lparr>multiscales_entry = None, labels_entry = Some ls\<rparr> None"

text \<open>An entry of the flat dictionary that is the array the store holds under the group.\<close>

definition resolved_entry :: "zarr_Group \<Rightarrow> string \<Rightarrow> spec \<Rightarrow> bool" where
  "resolved_entry g k v \<longleftrightarrow>
     (\<exists>p sh. k = ''/'' @ p \<and> store g (zarr_Group.path g @ ''/'' @ p) = ArrayNode sh \<and> v = ArraySpec sh)"

section \<open>Acquisition grouping\<close>

lemma distinct_defaultdict_append:
  "distinct (map fst d) \<Longrightarrow> distinct (map fst (defaultdict_append k p d))"
  by (simp add: defaultdict_append_def dict_set_def distinct_update split: option.splits)

lemma map_of_defaultdict_append:
  "map_of (defaultdict_append k p d) =
     (map_of d)(k \<mapsto> (case map_of d k of None \<Rightarrow> [p] | Some ps \<Rightarrow> ps @ [p]))"
  by (simp add: defaultdict_append_def dict_set_def update_conv' split: option.splits)

lemma acquisition_loop_fails:
  "\<exists>im \<in> set ims. acquisition im = None \<Longrightarrow> acquisition_loop d ims = Inl acquisition_error"
  by (induction ims arbitrary: d) (auto split: option.splits)

lemma acquisition_loop_succeeds:
  assumes "\<forall>im \<in> set ims. acquisition im \<noteq> None" and "distinct (map fst d)"
  shows "\<exists>d'. acquisition_loop d ims = Inr d' \<and> distinct (map fst d') \<and>
           (\<forall>k. map_of d' k =
              (if paths_of k ims = [] then map_of d k
               else Some ((case map_of d k of None \<Rightarrow> [] | Some ps \<Rightarrow> ps) @ paths_of k ims)))"
  using assms
proof (induction ims arbitrary: d)
  case Nil
  then show ?case by (simp add: paths_of_def)
next
  case (Cons im rest)
  from Cons.prems obtain k where k: "acquisition im = Some k" by auto
  let ?d = "defaultdict_append k (WellImage.path im) d"
  have dist: "distinct (map fst ?d)"
    using Cons.prems(2) by (rule distinct_defaultdict_append)
  from Cons.IH [OF _ dist] Cons.prems(1)
  obtain d' where d': "acquisition_loop ?d rest = Inr d'" "distinct (map fst d')"
    and look: "\<And>j. map_of d' j =
              (if paths_of j rest = [] then map_of ?d j
               else Some ((case map_of ?d j of None \<Rightarrow> [] | Some ps \<Rightarrow> ps) @ paths_of j rest))"
    by auto
  have "map_of d' j =
          (if paths_of j (im # rest) = [] then map_of d j
           else Some ((case map_of d j of None \<Rightarrow> [] | Some ps \<Rightarrow> ps) @ paths_of j (im # rest)))" for j
    using k by (simp add: look map_of_defaultdict_append paths_of_def split: option.splits)
  with d' k show ?case by simp
qed

text \<open>
  C6. \<open>get_acquisition_paths\<close> on images that all carry an acquisition id returns a
  dictionary with distinct keys that maps every id occurring in the list to the paths of
  the images sharing it, in list order, and has no other key; the images
  \<open>[("0",1),("1",1),("2",2)]\<close> give \<open>{1: ["0","1"], 2: ["2"]}\<close>. If any image has no
  acquisition id the call raises the \<open>ValueError\<close> and returns no dictionary.
\<close>

theorem get_acquisition_paths_groups:
  "((\<forall>im \<in> set (WellMeta.images self). acquisition im \<noteq> None) \<longrightarrow>
      (\<exists>d. get_acquisition_paths self = Inr d \<and> distinct (dict_keys d) \<and>
           (\<forall>k. map_of d k =
              (if Some k \<in> acquisition ` set (WellMeta.images self)
               then Some (paths_of k (WellMeta.images self)) else None)))) \<and>
   ((\<exists>im \<in> set (WellMeta.images self). acquisition im = None) \<longrightarrow>
      get_acquisition_paths self = Inl acquisition_error) \<and>
   get_acquisition_paths
     \<lparr>images = [\<lparr>WellImage.path = ''0'', acquisition = Some 1\<rparr>,
                \<lparr>WellImage.path = ''1'', acquisition = Some 1\<rparr>,
                \<lparr>WellImage.path = ''2'', acquisition = Some 2\<rparr>], WellMeta.version = v\<rparr>
     = Inr [(1, [''0'', ''1'']), (2, [''2''])]"
proof (intro conjI impI)
  assume all: "\<forall>im \<in> set (WellMeta.images self). acquisition im \<noteq> None"
  from acquisition_loop_succeeds [OF all, of "[]"]
  obtain d where d: "acquisition_loop [] (WellMeta.images self) = Inr d" "distinct (map fst d)"
    and look: "\<And>k. map_of d k =
       (if paths_of k (WellMeta.images self) = [] then None else Some (paths_of k (WellMeta.images self)))"
    by auto
  have "paths_of k (WellMeta.images self) = [] \<longleftrightarrow> Some k \<notin> acquisition ` set (WellMeta.images self)" for k
    by (auto simp: paths_of_def filter_empty_conv image_iff)
  with d look show "\<exists>d. get_acquisition_paths self = Inr d \<and> distinct (dict_keys d) \<and>
           (\<forall>k. map_of d k =
              (if Some k \<in> acquisition ` set (WellMeta.images self)
               then Some (paths_of k (WellMeta.images self)) else None))"
    by (simp add: get_acquisition_paths_def dict_keys_def)
next
  assume "\<exists>im \<in> set (WellMeta.images self). acquisition im = None"
  then show "get_acquisition_paths self = Inl acquisition_error"
    by (simp add: get_acquisition_paths_def acquisition_loop_fails)
next
  show "get_acquisition_paths
     \<lparr>images = [\<lparr>WellImage.path = ''0'', acquisition = Some 1\<rparr>,
                \<lparr>WellImage.path = ''1'', acquisition = Some 1\<rparr>,
                \<lparr>WellImage.path = ''2'', acquisition = Some 2\<rparr>], WellMeta.version = v\<rparr>
     = Inr [(1, [''0'', ''1'']), (2, [''2''])]"
    by (simp add: get_acquisition_paths_def defaultdict_append_def dict_set_def)
qed

theorem get_acquisition_paths_groups_witness:
  "get_acquisition_paths
     \<lparr>images = [\<lparr>WellImage.path = ''0'', acquisition = Some 0\<rparr>,
                \<lparr>WellImage.path = ''1'', acquisition = Some 3\<rparr>,
                \<lparr>WellImage.path = ''2'', acquisition = Some 0\<rparr>],
      WellMeta.version = Some ''0.4''\<rparr>
     = Inr [(0, [''0'', ''2'']), (3, [''1''])] \<and>
   get_acquisition_paths
     \<lparr>images = [\<lparr>WellImage.path = ''0'', acquisition = Some 1\<rparr>,
                \<lparr>WellImage.path = ''1'', acquisition = None\<rparr>],
      WellMeta.version = None\<rparr>
     = Inl acquisition_error"
proof -
  let ?w = "\<lparr>images = [\<lparr>WellImage.path = ''0'', acquisition = Some 0\<rparr>,
                       \<lparr>WellImage.path = ''1'', acquisition = Some 3\<rparr>,
                       \<lparr>WellImage.path = ''2'', acquisition = Some 0\<rparr>],
             WellMeta.version = Some ''0.4''\<rparr>"
  let ?v = "\<lparr>images = [\<lparr>WellImage.path = ''0'', acquisition = Some 1\<rparr>,
                       \<lparr>WellImage.path = ''1'', acquisition = None\<rparr>],
             WellMeta.version = None\<rparr>"
  have all: "\<forall>im \<in> set (WellMeta.images ?w). acquisition im \<noteq> None" by simp
  from get_acquisition_paths_groups [of ?w, THEN conjunct1, THEN mp, OF all]
  obtain d where "get_acquisition_paths ?w = Inr d" by blast
  moreover have "get_acquisition_paths ?w = Inr [(0, [''0'', ''2'']), (3, [''1''])]"
    by (simp add: get_acquisition_paths_def defaultdict_append_def dict_set_def)
  moreover have some: "\<exists>im \<in> set (WellMeta.images ?v). acquisition im = None" by simp
  from get_acquisition_paths_groups [of ?v, THEN conjunct2, THEN conjunct1, THEN mp, OF some]
  have "get_acquisition_paths ?v = Inl acquisition_error" .
  ultimately show ?thesis by simp
qed

section \<open>Label values of an image label\<close>














text \<open>
  The absence of colors never makes the construction fail. \<open>_parse_colors\<close> applied to
  \<open>None\<close> emits the warning and returns \<open>None\<close>; with \<open>colors\<close> supplied as \<open>None\<close> or
  not supplied, the construction succeeds, with \<open>colors = None\<close>, exactly when the field
  \<open>version\<close> validates.
\<close>

lemma colors_none_nonfatal:
  "parse_colors None = ([colors_none_msg], Inr None) \<and>
   (kw_colors kw = Some None \<longrightarrow> fst (ImageLabel_init kw) = [colors_none_msg]) \<and>
   (kw_colors kw = None \<longrightarrow> fst (ImageLabel_init kw) = []) \<and>
   (kw_colors kw = Some None \<or> kw_colors kw = None \<longrightarrow>
      snd (ImageLabel_init kw) =
        (case validate_version (kw_version kw) of
           Inl e \<Rightarrow> Inl (ValidationError (error_msgs (validate_version (kw_version kw))))
         | Inr v \<Rightarrow> Inr \<lparr>colors = None,
                       properties = validate_default_None (kw_properties kw),
                       source = validate_default_None (kw_source kw), version = v\<rparr>))"
  by (auto simp: ImageLabel_init_def validate_colors_def parse_colors_def parse_imagelabel_def
      error_msgs_def split: sum.splits)

text \<open>
  C7. Every \<open>ImageLabel\<close> whose \<open>colors\<close> is \<open>None\<close> is to be constructed with a warning.
  \<open>_parse_colors\<close> warns on \<open>None\<close>, and a construction that supplies \<open>colors = None\<close>
  emits the warning. A construction that does not supply the key \<open>colors\<close> at all also
  yields \<open>colors = None\<close>, but the default is taken without running \<open>_parse_colors\<close>: the
  same \<open>ImageLabel\<close> is constructed and no warning is emitted.
\<close>

theorem colors_default_no_warning:
  "ImageLabel_init
     \<lparr>kw_colors = None, kw_properties = None, kw_source = None, kw_version = Some (Some ''0.4'')\<rparr>
   = ([], Inr \<lparr>colors = None, properties = None, source = None, version = Some ''0.4''\<rparr>) \<and>
   ImageLabel_init
     \<lparr>kw_colors = Some None, kw_properties = None, kw_source = None,
      kw_version = Some (Some ''0.4'')\<rparr>
   = ([colors_none_msg],
      Inr \<lparr>colors = None, properties = None, source = None, version = Some ''0.4''\<rparr>) \<and>
   parse_colors None = ([colors_none_msg], Inr None)"
  by (simp add: ImageLabel_init_def validate_colors_def validate_default_None_def
      validate_version_def parse_imagelabel_def parse_colors_def)

text \<open>
  C10. The field \<open>version\<close> is required: a construction that does not supply the key fails
  with a \<open>ValidationError\<close> that has the entry for the missing field. A supplied \<open>None\<close>
  and a supplied \<open>"0.4"\<close> validate, any other string does not.
\<close>

theorem version_required:
  "(kw_version kw = None \<longrightarrow>
      (\<exists>ms. snd (ImageLabel_init kw) = Inl (ValidationError ms) \<and> field_required_msg \<in> set ms)) \<and>
   validate_version None = Inl (ValueError field_required_msg) \<and>
   validate_version (Some None) = Inr None \<and>
   validate_version (Some (Some ''0.4'')) = Inr (Some ''0.4'') \<and>
   (s \<noteq> ''0.4'' \<longrightarrow> validate_version (Some (Some s)) = Inl (ValueError version_literal_msg))"
  by (auto simp: ImageLabel_init_def validate_version_def error_msgs_def Let_def
      split: prod.splits sum.splits error.splits)

theorem version_required_witness:
  "ImageLabel_init
     \<lparr>kw_colors = Some (Some []), kw_properties = None, kw_source = None, kw_version = None\<rparr>
   = ([], Inl (ValidationError [field_required_msg])) \<and>
   ImageLabel_init
     \<lparr>kw_colors = Some (Some []), kw_properties = None, kw_source = None, kw_version = Some None\<rparr>
   = ([], Inr \<lparr>colors = Some [], properties = None, source = None, version = None\<rparr>) \<and>
   validate_version (Some (Some ''0.5'')) = Inl (ValueError version_literal_msg)"
  using version_required
          [of "\<lparr>kw_colors = Some (Some []), kw_properties = None, kw_source = None, kw_version = None\<rparr>"
              "''0.5''"]
  by (simp add: ImageLabel_init_def validate_colors_def parse_colors_def duplicates_def
      Counter_def validate_default_None_def validate_version_def parse_imagelabel_def
      error_msgs_def)


section \<open>Resolving an image against a store\<close>

lemma check_dataset_Inr_iff:
  "check_dataset f n d = Inr () \<longleftrightarrow>
     (\<exists>sh. map_of f (''/'' @ lstrip_slash (Dataset.path d)) = Some (ArraySpec sh) \<and> length sh = n)"
  by (auto simp: check_dataset_def Let_def split: option.splits spec.splits)

lemma check_datasets_Inr_iff:
  "check_datasets f n ds = Inr () \<longleftrightarrow> (\<forall>d \<in> set ds. check_dataset f n d = Inr ())"
  by (induction ds) (auto split: sum.splits)

lemma check_multiscales_Inr_iff:
  "check_multiscales f ms = Inr () \<longleftrightarrow>
     (\<forall>m \<in> set ms. check_datasets f (length (axes m)) (datasets m) = Inr ())"
  by (induction ms) (auto split: sum.splits)

lemma check_datasets_first:
  "\<forall>d' \<in> set pre. check_dataset f n d' = Inr () \<Longrightarrow> check_dataset f n d = Inl e \<Longrightarrow>
   check_datasets f n (pre @ d # post) = Inl e"
  by (induction pre) auto

lemma check_multiscales_first:
  "\<forall>m' \<in> set pre. check_datasets f (length (axes m')) (datasets m') = Inr () \<Longrightarrow>
   check_datasets f (length (axes m)) (datasets m) = Inl e \<Longrightarrow>
   check_multiscales f (pre @ m # post) = Inl e"
  by (induction pre) auto

lemma check_arrays_compatible_iff:
  "check_arrays_compatible data = Inr data' \<longleftrightarrow>
     data' = data \<and>
     (\<forall>m \<in> set (multiscales (attributes data)). \<forall>d \<in> set (datasets m).
        \<exists>sh. map_of (Image_to_flat data) (''/'' @ lstrip_slash (Dataset.path d)) = Some (ArraySpec sh) \<and>
             length sh = length (axes m))"
proof -
  have "check_arrays_compatible data = Inr data' \<longleftrightarrow>
          data' = data \<and> check_multiscales (Image_to_flat data) (multiscales (attributes data)) = Inr ()"
    by (auto simp: check_arrays_compatible_def Let_def split: sum.splits)
  then show ?thesis
    by (simp add: check_multiscales_Inr_iff check_datasets_Inr_iff check_dataset_Inr_iff)
qed

lemma check_arrays_compatible_same:
  "check_arrays_compatible data = Inr data' \<Longrightarrow> data' = data"
  by (auto simp: check_arrays_compatible_def Let_def split: sum.splits)

lemma Image_init_Inr:
  "Image_init a ms = Inr img \<Longrightarrow> check_arrays_compatible img = Inr img"
  by (auto simp: Image_init_def split: sum.splits error.splits dest: check_arrays_compatible_same)

lemma from_zarr_Inr:
  "from_zarr g = Inr img \<Longrightarrow> \<exists>ms. Image_init (attrs g) ms = Inr img"
  by (auto simp: from_zarr_def split: sum.splits)

text \<open>
  C2. An \<open>Image\<close> that was constructed, by the constructor or by \<open>from_zarr\<close>, has for
  every dataset of every multiscale of its attributes an array (not a group) in its
  flattened members at the key of the dataset's path, and the rank of that array is the
  number of axes of the multiscale. The model validator \<open>_check_arrays_compatible\<close>, which
  every construction runs, accepts an image exactly when this holds.
\<close>

theorem Image_rank_invariant:
  "(Image_init a ms = Inr img \<or> from_zarr g = Inr img \<longrightarrow>
      (\<forall>m \<in> set (multiscales (attributes img)). \<forall>d \<in> set (datasets m).
         \<exists>sh. map_of (Image_to_flat img) (''/'' @ lstrip_slash (Dataset.path d)) = Some (ArraySpec sh) \<and>
              length sh = length (axes m))) \<and>
   (check_arrays_compatible img = Inr img \<longleftrightarrow>
      (\<forall>m \<in> set (multiscales (attributes img)). \<forall>d \<in> set (datasets m).
         \<exists>sh. map_of (Image_to_flat img) (''/'' @ lstrip_slash (Dataset.path d)) = Some (ArraySpec sh) \<and>
              length sh = length (axes m)))"
proof (intro conjI impI)
  assume "Image_init a ms = Inr img \<or> from_zarr g = Inr img"
  then have "check_arrays_compatible img = Inr img"
    by (auto dest: Image_init_Inr from_zarr_Inr)
  then show "\<forall>m \<in> set (multiscales (attributes img)). \<forall>d \<in> set (datasets m).
         \<exists>sh. map_of (Image_to_flat img) (''/'' @ lstrip_slash (Dataset.path d)) = Some (ArraySpec sh) \<and>
              length sh = length (axes m)"
    by (simp add: check_arrays_compatible_iff)
next
  show "check_arrays_compatible img = Inr img \<longleftrightarrow>
      (\<forall>m \<in> set (multiscales (attributes img)). \<forall>d \<in> set (datasets m).
         \<exists>sh. map_of (Image_to_flat img) (''/'' @ lstrip_slash (Dataset.path d)) = Some (ArraySpec sh) \<and>
              length sh = length (axes m))"
    by (simp add: check_arrays_compatible_iff)
qed

lemma rank_msg_distinct:
  "rank_mismatch_msg n p r \<noteq> does_not_exist_msg q"
  "rank_mismatch_msg n p r \<noteq> is_a_group_msg q"
  "rank_mismatch_msg n p r \<noteq> no_array_msg q"
  "rank_mismatch_msg n p r \<noteq> found_group_msg q"
  by (simp_all add: rank_mismatch_msg_def does_not_exist_msg_def is_a_group_msg_def
      no_array_msg_def found_group_msg_def)

lemma no_array_found_group_distinct: "no_array_msg p \<noteq> found_group_msg q"
proof
  assume "no_array_msg p = found_group_msg q"
  then have "rev (no_array_msg p) = rev (found_group_msg q)" by simp
  then show False
    by (simp add: no_array_msg_def found_group_msg_def)
qed

text \<open>
  C3. When the datasets before it in the order of the metadata pass the check and a
  dataset resolves to an array whose rank differs from the number of axes of its
  multiscale, \<open>_check_arrays_compatible\<close> raises the rank error and the construction of the
  \<open>Image\<close> fails with it. The message contains the number of axes, the dataset path and
  the rank of the array, and it differs from the messages for a missing array and for a
  group, of the validator and of \<open>from_zarr\<close> alike.
\<close>

theorem rank_mismatch_error:
  "(multiscales (attributes data) = mpre @ m # mpost \<and> datasets m = dpre @ d # dpost \<and>
    (\<forall>m' \<in> set mpre. \<forall>d' \<in> set (datasets m').
       check_dataset (Image_to_flat data) (length (axes m')) d' = Inr ()) \<and>
    (\<forall>d' \<in> set dpre. check_dataset (Image_to_flat data) (length (axes m)) d' = Inr ()) \<and>
    map_of (Image_to_flat data) (''/'' @ lstrip_slash (Dataset.path d)) = Some (ArraySpec sh) \<and>
    length sh \<noteq> length (axes m) \<longrightarrow>
      check_arrays_compatible data =
        Inl (ValueError (rank_mismatch_msg (length (axes m)) (Dataset.path d) (length sh))) \<and>
      Image_init (ImageAttrs_dump (attributes data)) (members data) =
        Inl (ValidationError [rank_mismatch_msg (length (axes m)) (Dataset.path d) (length sh)])) \<and>
   rank_mismatch_msg n p r \<noteq> does_not_exist_msg q \<and>
   rank_mismatch_msg n p r \<noteq> is_a_group_msg q \<and>
   rank_mismatch_msg n p r \<noteq> no_array_msg q \<and>
   rank_mismatch_msg n p r \<noteq> found_group_msg q \<and>
   (\<exists>s1 s2 s3 s4. rank_mismatch_msg n p r = s1 @ str_nat n @ s2 @ p @ s3 @ str_nat r @ s4)"
proof (intro conjI impI)
  assume a: "multiscales (attributes data) = mpre @ m # mpost \<and> datasets m = dpre @ d # dpost \<and>
    (\<forall>m' \<in> set mpre. \<forall>d' \<in> set (datasets m').
       check_dataset (Image_to_flat data) (length (axes m')) d' = Inr ()) \<and>
    (\<forall>d' \<in> set dpre. check_dataset (Image_to_flat data) (length (axes m)) d' = Inr ()) \<and>
    map_of (Image_to_flat data) (''/'' @ lstrip_slash (Dataset.path d)) = Some (ArraySpec sh) \<and>
    length sh \<noteq> length (axes m)"
  let ?e = "ValueError (rank_mismatch_msg (length (axes m)) (Dataset.path d) (length sh))"
  from a have "check_dataset (Image_to_flat data) (length (axes m)) d = Inl ?e"
    by (simp add: check_dataset_def Let_def)
  with a have "check_datasets (Image_to_flat data) (length (axes m)) (datasets m) = Inl ?e"
    by (simp add: check_datasets_first)
  moreover from a have "\<forall>m' \<in> set mpre.
      check_datasets (Image_to_flat data) (length (axes m')) (datasets m') = Inr ()"
    by (simp add: check_datasets_Inr_iff)
  ultimately have "check_multiscales (Image_to_flat data) (mpre @ m # mpost) = Inl ?e"
    by (rule check_multiscales_first [rotated])
  with a show c: "check_arrays_compatible data = Inl ?e"
    by (simp add: check_arrays_compatible_def Let_def)
  from a have v: "ImageAttrs_validate (ImageAttrs_dump (attributes data)) = Inr (attributes data)"
    by (simp add: ImageAttrs_validate_def ImageAttrs_dump_def)
  have surj: "\<lparr>attributes = attributes data, members = members data\<rparr> = data"
    by (cases data) simp
  show "Image_init (ImageAttrs_dump (attributes data)) (members data) =
        Inl (ValidationError [rank_mismatch_msg (length (axes m)) (Dataset.path d) (length sh)])"
    unfolding Image_init_def v sum.case surj c by simp
next
  show "\<exists>s1 s2 s3 s4. rank_mismatch_msg n p r = s1 @ str_nat n @ s2 @ p @ s3 @ str_nat r @ s4"
    unfolding rank_mismatch_msg_def
    by (rule exI [of _ "''The multiscale metadata has ''"],
        rule exI [of _ "'' axes '' @ ''which does not match the dimensionality of the array '' @
                        ''found in this group at ''"],
        rule exI [of _ "'' (''"],
        rule exI [of _ "''). '' @ ''The number of axes must match the array dimensionality.''"])
      simp
qed (rule rank_msg_distinct)+

lemma resolve_dataset_array:
  "store g (zarr_Group.path g @ ''/'' @ Dataset.path d) = ArrayNode sh \<Longrightarrow>
   resolve_dataset g f d = Inr (dict_set (''/'' @ Dataset.path d) (ArraySpec sh) f)"
  by (simp add: resolve_dataset_def open_array_def)

lemma resolve_dataset_absent:
  "store g (zarr_Group.path g @ ''/'' @ Dataset.path d) = Absent \<Longrightarrow>
   resolve_dataset g f d = Inl (ValueError (no_array_msg (zarr_Group.path g @ ''/'' @ Dataset.path d)))"
  by (simp add: resolve_dataset_def open_array_def)

lemma resolve_dataset_group:
  "store g (zarr_Group.path g @ ''/'' @ Dataset.path d) = GroupNode a ms \<Longrightarrow>
   resolve_dataset g f d = Inl (ValueError (found_group_msg (zarr_Group.path g @ ''/'' @ Dataset.path d)))"
  by (simp add: resolve_dataset_def open_array_def)

lemma resolve_datasets_first:
  "\<forall>d' \<in> set pre. \<exists>sh. store g (zarr_Group.path g @ ''/'' @ Dataset.path d') = ArrayNode sh \<Longrightarrow>
   \<forall>f. resolve_dataset g f d = Inl e \<Longrightarrow>
   resolve_datasets g f (pre @ d # post) = Inl e"
  by (induction pre arbitrary: f) (auto simp: resolve_dataset_array)

lemma resolve_datasets_arrays:
  "\<forall>d \<in> set ds. \<exists>sh. store g (zarr_Group.path g @ ''/'' @ Dataset.path d) = ArrayNode sh \<Longrightarrow>
   \<exists>f'. resolve_datasets g f ds = Inr f'"
  by (induction ds arbitrary: f) (auto simp: resolve_dataset_array)

lemma resolve_multiscales_first:
  "\<forall>m' \<in> set pre. \<forall>d' \<in> set (datasets m').
      \<exists>sh. store g (zarr_Group.path g @ ''/'' @ Dataset.path d') = ArrayNode sh \<Longrightarrow>
   \<forall>f. resolve_datasets g f (datasets m) = Inl e \<Longrightarrow>
   resolve_multiscales g f (pre @ m # post) = Inl e"
proof (induction pre arbitrary: f)
  case Nil
  then show ?case by simp
next
  case (Cons m' pre)
  from Cons.prems(1) resolve_datasets_arrays [of "datasets m'" g f]
  obtain f' where "resolve_datasets g f (datasets m') = Inr f'" by auto
  with Cons show ?case by simp
qed

lemma resolve_dataset_entries:
  assumes "resolve_dataset g f d = Inr f'" and "\<forall>k v. map_of f k = Some v \<longrightarrow> resolved_entry g k v"
  shows "(\<forall>k v. map_of f' k = Some v \<longrightarrow> resolved_entry g k v) \<and>
         dom (map_of f') = insert (''/'' @ Dataset.path d) (dom (map_of f))"
proof -
  from assms(1) obtain sh where sh: "store g (zarr_Group.path g @ ''/'' @ Dataset.path d) = ArrayNode sh"
    and f': "f' = dict_set (''/'' @ Dataset.path d) (ArraySpec sh) f"
    by (cases "store g (zarr_Group.path g @ ''/'' @ Dataset.path d)")
       (auto simp: resolve_dataset_def open_array_def Let_def)
  have "map_of f' = (map_of f)(''/'' @ Dataset.path d \<mapsto> ArraySpec sh)"
    by (simp add: f' dict_set_def update_conv')
  with sh assms(2) show ?thesis
    by (auto simp: resolved_entry_def)
qed

lemma resolve_datasets_entries:
  assumes "resolve_datasets g f ds = Inr f'" and "\<forall>k v. map_of f k = Some v \<longrightarrow> resolved_entry g k v"
  shows "(\<forall>k v. map_of f' k = Some v \<longrightarrow> resolved_entry g k v) \<and>
         dom (map_of f') = (\<lambda>d. ''/'' @ Dataset.path d) ` set ds \<union> dom (map_of f)"
  using assms
proof (induction ds arbitrary: f)
  case Nil
  then show ?case by simp
next
  case (Cons d ds)
  from Cons.prems(1) obtain f1 where f1: "resolve_dataset g f d = Inr f1"
    and rest: "resolve_datasets g f1 ds = Inr f'"
    by (auto split: sum.splits)
  from resolve_dataset_entries [OF f1 Cons.prems(2)]
  have ok: "\<forall>k v. map_of f1 k = Some v \<longrightarrow> resolved_entry g k v"
    and dom: "dom (map_of f1) = insert (''/'' @ Dataset.path d) (dom (map_of f))"
    by blast+
  from Cons.IH [OF rest ok] dom show ?case by auto
qed

lemma resolve_multiscales_entries:
  assumes "resolve_multiscales g f ms = Inr f'" and "\<forall>k v. map_of f k = Some v \<longrightarrow> resolved_entry g k v"
  shows "(\<forall>k v. map_of f' k = Some v \<longrightarrow> resolved_entry g k v) \<and>
         dom (map_of f') = (\<Union>m \<in> set ms. (\<lambda>d. ''/'' @ Dataset.path d) ` set (datasets m)) \<union> dom (map_of f)"
  using assms
proof (induction ms arbitrary: f)
  case Nil
  then show ?case by simp
next
  case (Cons m ms)
  from Cons.prems(1) obtain f1 where f1: "resolve_datasets g f (datasets m) = Inr f1"
    and rest: "resolve_multiscales g f1 ms = Inr f'"
    by (auto split: sum.splits)
  from resolve_datasets_entries [OF f1 Cons.prems(2)]
  have ok: "\<forall>k v. map_of f1 k = Some v \<longrightarrow> resolved_entry g k v"
    and dom: "dom (map_of f1) = (\<lambda>d. ''/'' @ Dataset.path d) ` set (datasets m) \<union> dom (map_of f)"
    by blast+
  from Cons.IH [OF rest ok] dom show ?case by auto
qed

lemma resolve_multiscales_lookup:
  assumes "resolve_multiscales g [] ms = Inr flat" and "m \<in> set ms" and "d \<in> set (datasets m)"
  shows "\<exists>sh. store g (zarr_Group.path g @ ''/'' @ Dataset.path d) = ArrayNode sh \<and>
              map_of flat (''/'' @ Dataset.path d) = Some (ArraySpec sh)"
proof -
  from resolve_multiscales_entries [OF assms(1)]
  have ok: "\<forall>k v. map_of flat k = Some v \<longrightarrow> resolved_entry g k v"
    and dom: "dom (map_of flat) = (\<Union>m \<in> set ms. (\<lambda>d. ''/'' @ Dataset.path d) ` set (datasets m))"
    by auto
  from dom assms(2,3) have "''/'' @ Dataset.path d \<in> dom (map_of flat)" by blast
  then obtain v where v: "map_of flat (''/'' @ Dataset.path d) = Some v" by blast
  with ok have "resolved_entry g (''/'' @ Dataset.path d) v" by blast
  with v show ?thesis by (auto simp: resolved_entry_def)
qed

lemma from_flat_group_root:
  "from_flat_group [([[]], GroupSpec a m)] = Inr (GroupSpec a (Some []))"
  by (subst from_flat_group.simps)
     (simp add: root_attrs_def first_invalid_def non_root_def sub_names_def member_arrays_def
        dict_of_items_def dict_update_def)

lemma from_flat_example:
  "from_flat [(''/s0'', ArraySpec sh0), (''/s1'', ArraySpec sh1)] =
     Inr (GroupSpec empty_attrs (Some [(''s0'', ArraySpec sh0), (''s1'', ArraySpec sh1)]))"
  unfolding from_flat_def
  by (subst from_flat_group.simps)
     (simp add: root_attrs_def first_invalid_def non_root_def sub_names_def member_arrays_def
        submembers_def dict_of_items_def dict_update_def dict_set_def)

lemma from_flat_example_labels:
  "from_flat [(''/s0'', ArraySpec sh0), (''/s1'', ArraySpec sh1), (''/labels'', GroupSpec a m)] =
     Inr (GroupSpec empty_attrs
            (Some [(''labels'', GroupSpec a (Some [])), (''s0'', ArraySpec sh0), (''s1'', ArraySpec sh1)]))"
  unfolding from_flat_def
  by (subst from_flat_group.simps)
     (simp add: root_attrs_def first_invalid_def non_root_def sub_names_def member_arrays_def
        submembers_def dict_of_items_def dict_update_def dict_set_def from_flat_group_root)

lemmas from_zarr_eval =
  from_zarr_def example_group_def example_attrs_def example_store_def labels_node_def
  ImageAttrs_validate_def members_tree_flat_of_def resolve_dataset_def open_array_def
  resolve_labels_def open_group_def dict_set_def spec_members_def Image_init_def
  check_arrays_compatible_def Image_to_flat_def dict_update_def check_dataset_def
  lstrip_slash_def from_flat_example from_flat_example_labels

lemma example_ok:
  "from_zarr (example_group example_store) =
     Inr \<lparr>attributes = \<lparr>multiscales = the (multiscales_entry example_attrs)\<rparr>,
          members = Some [(''s0'', ArraySpec [10, 10]), (''s1'', ArraySpec [5, 5])]\<rparr>"
  by (simp add: from_zarr_eval)

lemma example_root_labels:
  "from_zarr (example_group (example_store(''labels'' := labels_node [''root'']))) =
     Inr \<lparr>attributes = \<lparr>multiscales = the (multiscales_entry example_attrs)\<rparr>,
          members = Some [(''labels'', GroupSpec \<lparr>multiscales_entry = None, labels_entry = Some [''root'']\<rparr> (Some [])),
                          (''s0'', ArraySpec [10, 10]), (''s1'', ArraySpec [5, 5])]\<rparr>"
  by (simp add: from_zarr_eval)

lemma example_child_labels:
  "from_zarr (example_group (example_store(''broken/labels'' := labels_node [''child'']))) =
     Inr \<lparr>attributes = \<lparr>multiscales = the (multiscales_entry example_attrs)\<rparr>,
          members = Some [(''s0'', ArraySpec [10, 10]), (''s1'', ArraySpec [5, 5])]\<rparr>"
  by (simp add: from_zarr_eval)

lemma from_zarr_members_tree_flat:
  "from_zarr g = Inr img \<Longrightarrow> ImageAttrs_validate (attrs g) = Inr mm \<Longrightarrow>
   \<exists>flat. resolve_multiscales g [] (multiscales mm) = Inr flat"
  by (auto simp: from_zarr_def members_tree_flat_of_def split: sum.splits)

text \<open>
  C1. \<open>from_zarr\<close> opens every dataset at the path of the group joined by a slash with the
  path of the dataset. When the datasets before it in the order of the metadata are
  arrays, a dataset with nothing at that path makes \<open>from_zarr\<close> fail with the
  missing-array error, and one with a group there with the group error; both messages
  contain the path and they are never equal. When the datasets resolve, each is an array
  in the store at that path and is entered under its key with that array's shape.
\<close>

theorem from_zarr_dataset_errors:
  "(ImageAttrs_validate (attrs g) = Inr mm \<and> multiscales mm = mpre @ m # mpost \<and>
    datasets m = dpre @ d # dpost \<and>
    (\<forall>m' \<in> set mpre. \<forall>d' \<in> set (datasets m').
       \<exists>sh. store g (zarr_Group.path g @ ''/'' @ Dataset.path d') = ArrayNode sh) \<and>
    (\<forall>d' \<in> set dpre. \<exists>sh. store g (zarr_Group.path g @ ''/'' @ Dataset.path d') = ArrayNode sh) \<longrightarrow>
      (store g (zarr_Group.path g @ ''/'' @ Dataset.path d) = Absent \<longrightarrow>
         from_zarr g = Inl (ValueError (no_array_msg (zarr_Group.path g @ ''/'' @ Dataset.path d)))) \<and>
      (\<forall>a ms. store g (zarr_Group.path g @ ''/'' @ Dataset.path d) = GroupNode a ms \<longrightarrow>
         from_zarr g = Inl (ValueError (found_group_msg (zarr_Group.path g @ ''/'' @ Dataset.path d))))) \<and>
   (ImageAttrs_validate (attrs g) = Inr mm \<and> m \<in> set (multiscales mm) \<and> d \<in> set (datasets m) \<and>
    (resolve_multiscales g [] (multiscales mm) = Inr flat \<or> from_zarr g = Inr img) \<longrightarrow>
      (\<exists>sh. store g (zarr_Group.path g @ ''/'' @ Dataset.path d) = ArrayNode sh \<and>
            (resolve_multiscales g [] (multiscales mm) = Inr flat \<longrightarrow>
               map_of flat (''/'' @ Dataset.path d) = Some (ArraySpec sh)))) \<and>
   no_array_msg p \<noteq> found_group_msg q \<and>
   (\<exists>s1 s2. no_array_msg p = s1 @ p @ s2) \<and>
   (\<exists>s1 s2. found_group_msg p = s1 @ p @ s2)"
proof (intro conjI impI allI)
  assume a: "ImageAttrs_validate (attrs g) = Inr mm \<and> multiscales mm = mpre @ m # mpost \<and>
    datasets m = dpre @ d # dpost \<and>
    (\<forall>m' \<in> set mpre. \<forall>d' \<in> set (datasets m').
       \<exists>sh. store g (zarr_Group.path g @ ''/'' @ Dataset.path d') = ArrayNode sh) \<and>
    (\<forall>d' \<in> set dpre. \<exists>sh. store g (zarr_Group.path g @ ''/'' @ Dataset.path d') = ArrayNode sh)"
  have fail: "from_zarr g = Inl e" if "\<forall>f. resolve_dataset g f d = Inl e" for e
  proof -
    from a that have "resolve_datasets g f (datasets m) = Inl e" for f
      by (simp add: resolve_datasets_first)
    with a have "resolve_multiscales g [] (multiscales mm) = Inl e"
      by (simp add: resolve_multiscales_first)
    with a show ?thesis
      by (simp add: from_zarr_def members_tree_flat_of_def)
  qed
  {
    assume "store g (zarr_Group.path g @ ''/'' @ Dataset.path d) = Absent"
    then have "\<forall>f. resolve_dataset g f d =
        Inl (ValueError (no_array_msg (zarr_Group.path g @ ''/'' @ Dataset.path d)))"
      by (simp add: resolve_dataset_absent)
    then show "from_zarr g = Inl (ValueError (no_array_msg (zarr_Group.path g @ ''/'' @ Dataset.path d)))"
      by (rule fail)
  next
    fix a' ms
    assume "store g (zarr_Group.path g @ ''/'' @ Dataset.path d) = GroupNode a' ms"
    then have "\<forall>f. resolve_dataset g f d =
        Inl (ValueError (found_group_msg (zarr_Group.path g @ ''/'' @ Dataset.path d)))"
      by (simp add: resolve_dataset_group)
    then show "from_zarr g = Inl (ValueError (found_group_msg (zarr_Group.path g @ ''/'' @ Dataset.path d)))"
      by (rule fail)
  }
next
  assume b: "ImageAttrs_validate (attrs g) = Inr mm \<and> m \<in> set (multiscales mm) \<and> d \<in> set (datasets m) \<and>
    (resolve_multiscales g [] (multiscales mm) = Inr flat \<or> from_zarr g = Inr img)"
  then obtain flat' where flat': "resolve_multiscales g [] (multiscales mm) = Inr flat'"
    using from_zarr_members_tree_flat [of g img mm] by blast
  from b resolve_multiscales_lookup [OF flat', of m d]
  obtain sh where "store g (zarr_Group.path g @ ''/'' @ Dataset.path d) = ArrayNode sh"
    "map_of flat' (''/'' @ Dataset.path d) = Some (ArraySpec sh)"
    by blast
  with flat' show "\<exists>sh. store g (zarr_Group.path g @ ''/'' @ Dataset.path d) = ArrayNode sh \<and>
            (resolve_multiscales g [] (multiscales mm) = Inr flat \<longrightarrow>
               map_of flat (''/'' @ Dataset.path d) = Some (ArraySpec sh))"
    by auto
next
  show "no_array_msg p \<noteq> found_group_msg q"
    by (rule no_array_found_group_distinct)
next
  show "\<exists>s1 s2. no_array_msg p = s1 @ p @ s2"
    unfolding no_array_msg_def
    by (rule exI [of _ "''Expected to find an array at ''"],
        rule exI [of _ "'', '' @ ''but no array was found there.''"]) simp
next
  show "\<exists>s1 s2. found_group_msg p = s1 @ p @ s2"
    unfolding found_group_msg_def
    by (rule exI [of _ "''Expected to find an array at ''"],
        rule exI [of _ "'', '' @ ''but a group was found there instead.''"]) simp
qed

lemma resolve_dataset_cong:
  "zarr_Group.path g' = zarr_Group.path g \<Longrightarrow>
   store g' (zarr_Group.path g @ ''/'' @ Dataset.path d) =
     store g (zarr_Group.path g @ ''/'' @ Dataset.path d) \<Longrightarrow>
   resolve_dataset g' f d = resolve_dataset g f d"
  by (simp add: resolve_dataset_def open_array_def)

lemma resolve_datasets_cong:
  "zarr_Group.path g' = zarr_Group.path g \<Longrightarrow>
   \<forall>d \<in> set ds. store g' (zarr_Group.path g @ ''/'' @ Dataset.path d) =
                  store g (zarr_Group.path g @ ''/'' @ Dataset.path d) \<Longrightarrow>
   resolve_datasets g' f ds = resolve_datasets g f ds"
proof (induction ds arbitrary: f)
  case Nil
  then show ?case by simp
next
  case (Cons d ds)
  then have "resolve_dataset g' f d = resolve_dataset g f d"
    by (intro resolve_dataset_cong) simp_all
  moreover from Cons have "resolve_datasets g' f1 ds = resolve_datasets g f1 ds" for f1
    by simp
  ultimately show ?case
    by (cases "resolve_dataset g f d") simp_all
qed

lemma resolve_multiscales_cong:
  "zarr_Group.path g' = zarr_Group.path g \<Longrightarrow>
   \<forall>m \<in> set ms. \<forall>d \<in> set (datasets m).
      store g' (zarr_Group.path g @ ''/'' @ Dataset.path d) =
      store g (zarr_Group.path g @ ''/'' @ Dataset.path d) \<Longrightarrow>
   resolve_multiscales g' f ms = resolve_multiscales g f ms"
proof (induction ms arbitrary: f)
  case Nil
  then show ?case by simp
next
  case (Cons m ms)
  then have "resolve_datasets g' f (datasets m) = resolve_datasets g f (datasets m)"
    by (intro resolve_datasets_cong) simp_all
  moreover from Cons have "resolve_multiscales g' f1 ms = resolve_multiscales g f1 ms" for f1
    by simp
  ultimately show ?case
    by (cases "resolve_datasets g f (datasets m)") simp_all
qed

text \<open>
  C9. The labels are opened at the fixed path \<open>labels\<close>: a group found there is what is
  entered under \<open>/labels\<close>, whatever the path of the group, and with nothing there no entry
  is made. The result of \<open>from_zarr\<close> depends on the store only at \<open>labels\<close> and at the
  paths of the datasets under the group; in particular what the store holds at the
  group's own child \<open>labels\<close> does not matter.
\<close>

theorem labels_opened_at_store_root:
  "(store g ''labels'' = GroupNode a ms \<and> members_tree_flat_of g mm = Inr flat \<longrightarrow>
      map_of flat ''/labels'' = Some (GroupSpec a ms)) \<and>
   (store g ''labels'' = Absent \<longrightarrow>
      members_tree_flat_of g mm = resolve_multiscales g [] (multiscales mm)) \<and>
   (zarr_Group.path g' = zarr_Group.path g \<and> attrs g' = attrs g \<and>
    store g' ''labels'' = store g ''labels'' \<and>
    (\<forall>m \<in> set (case multiscales_entry (attrs g) of None \<Rightarrow> [] | Some l \<Rightarrow> l).
       \<forall>d \<in> set (datasets m).
         store g' (zarr_Group.path g @ ''/'' @ Dataset.path d) =
         store g (zarr_Group.path g @ ''/'' @ Dataset.path d)) \<longrightarrow>
      from_zarr g' = from_zarr g)"
proof (intro conjI impI)
  assume "store g ''labels'' = GroupNode a ms \<and> members_tree_flat_of g mm = Inr flat"
  then obtain f where "flat = dict_set ''/labels'' (GroupSpec a ms) f"
    by (cases "resolve_multiscales g [] (multiscales mm)")
       (auto simp: members_tree_flat_of_def resolve_labels_def open_group_def)
  then show "map_of flat ''/labels'' = Some (GroupSpec a ms)"
    by (simp add: dict_set_def update_conv')
next
  assume "store g ''labels'' = Absent"
  then show "members_tree_flat_of g mm = resolve_multiscales g [] (multiscales mm)"
    by (cases "resolve_multiscales g [] (multiscales mm)")
       (simp_all add: members_tree_flat_of_def resolve_labels_def open_group_def)
next
  assume c: "zarr_Group.path g' = zarr_Group.path g \<and> attrs g' = attrs g \<and>
    store g' ''labels'' = store g ''labels'' \<and>
    (\<forall>m \<in> set (case multiscales_entry (attrs g) of None \<Rightarrow> [] | Some l \<Rightarrow> l).
       \<forall>d \<in> set (datasets m).
         store g' (zarr_Group.path g @ ''/'' @ Dataset.path d) =
         store g (zarr_Group.path g @ ''/'' @ Dataset.path d))"
  then have pth: "zarr_Group.path g' = zarr_Group.path g" and at: "attrs g' = attrs g"
    and lab: "store g' ''labels'' = store g ''labels''"
    and ds: "\<forall>m \<in> set (case multiscales_entry (attrs g) of None \<Rightarrow> [] | Some l \<Rightarrow> l).
       \<forall>d \<in> set (datasets m).
         store g' (zarr_Group.path g @ ''/'' @ Dataset.path d) =
         store g (zarr_Group.path g @ ''/'' @ Dataset.path d)"
    by blast+
  show "from_zarr g' = from_zarr g"
  proof (cases "ImageAttrs_validate (attrs g)")
    case (Inl e)
    then show ?thesis unfolding from_zarr_def at by simp
  next
    case (Inr mm')
    then have "multiscales_entry (attrs g) = Some (multiscales mm')"
      by (cases "multiscales_entry (attrs g)")
         (auto simp: ImageAttrs_validate_def split: if_splits)
    with ds have "\<forall>m \<in> set (multiscales mm'). \<forall>d \<in> set (datasets m).
         store g' (zarr_Group.path g @ ''/'' @ Dataset.path d) =
         store g (zarr_Group.path g @ ''/'' @ Dataset.path d)"
      by simp
    with pth have "resolve_multiscales g' [] (multiscales mm') = resolve_multiscales g [] (multiscales mm')"
      by (rule resolve_multiscales_cong)
    moreover from lab have "resolve_labels g' f = resolve_labels g f" for f
      by (simp add: resolve_labels_def open_group_def)
    ultimately have mt: "members_tree_flat_of g' mm' = members_tree_flat_of g mm'"
      by (simp add: members_tree_flat_of_def split: sum.splits)
    show ?thesis
      unfolding from_zarr_def at Inr sum.case mt by (rule refl)
  qed
qed

theorem Image_rank_invariant_witness:
  "from_zarr (example_group example_store) =
     Inr \<lparr>attributes = \<lparr>multiscales = the (multiscales_entry example_attrs)\<rparr>,
          members = Some [(''s0'', ArraySpec [10, 10]), (''s1'', ArraySpec [5, 5])]\<rparr> \<and>
   (\<exists>sh. map_of (Image_to_flat
              \<lparr>attributes = \<lparr>multiscales = the (multiscales_entry example_attrs)\<rparr>,
               members = Some [(''s0'', ArraySpec [10, 10]), (''s1'', ArraySpec [5, 5])]\<rparr>)
            ''/s1'' = Some (ArraySpec sh) \<and> length sh = 2)"
proof -
  let ?img = "\<lparr>attributes = \<lparr>multiscales = the (multiscales_entry example_attrs)\<rparr>,
               members = Some [(''s0'', ArraySpec [10, 10]), (''s1'', ArraySpec [5, 5])]\<rparr>"
  have r: "from_zarr (example_group example_store) = Inr ?img"
    by (rule example_ok)
  then have "Image_init a ms = Inr ?img \<or> from_zarr (example_group example_store) = Inr ?img" for a ms
    by (rule disjI2)
  from Image_rank_invariant [THEN conjunct1, THEN mp, OF this]
  have "\<forall>m \<in> set (multiscales (attributes ?img)). \<forall>d \<in> set (datasets m).
         \<exists>sh. map_of (Image_to_flat ?img) (''/'' @ lstrip_slash (Dataset.path d)) = Some (ArraySpec sh) \<and>
              length sh = length (axes m)" .
  then have "\<exists>sh. map_of (Image_to_flat ?img) ''/s1'' = Some (ArraySpec sh) \<and> length sh = 2"
    by (auto simp: example_attrs_def lstrip_slash_def)
  with r show ?thesis by simp
qed

theorem rank_mismatch_error_witness:
  "Image_init example_attrs (Some [(''s0'', ArraySpec [10, 10]), (''s1'', ArraySpec [5])]) =
     Inl (ValidationError
       [''The multiscale metadata has 2 axes which does not match the dimensionality '' @
        ''of the array found in this group at s1 (1). '' @
        ''The number of axes must match the array dimensionality.''])"
proof -
  let ?m = "\<lparr>axes = [\<lparr>name = ''x'', axis_type = Some ''space'', unit = None\<rparr>,
                       \<lparr>name = ''y'', axis_type = Some ''space'', unit = None\<rparr>],
             datasets = [\<lparr>Dataset.path = ''s0''\<rparr>, \<lparr>Dataset.path = ''s1''\<rparr>]\<rparr>"
  let ?data = "\<lparr>attributes = \<lparr>multiscales = [?m]\<rparr>,
                members = Some [(''s0'', ArraySpec [10, 10]), (''s1'', ArraySpec [5])]\<rparr>"
  have flat: "Image_to_flat ?data =
      [([], GroupSpec (ImageAttrs_dump \<lparr>multiscales = [?m]\<rparr>) None),
       (''/s0'', ArraySpec [10, 10]), (''/s1'', ArraySpec [5])]"
    by (simp add: Image_to_flat_def dict_update_def dict_set_def)
  have "multiscales (attributes ?data) = [] @ ?m # [] \<and>
        datasets ?m = [\<lparr>Dataset.path = ''s0''\<rparr>] @ \<lparr>Dataset.path = ''s1''\<rparr> # [] \<and>
        (\<forall>m' \<in> set []. \<forall>d' \<in> set (datasets m').
           check_dataset (Image_to_flat ?data) (length (axes m')) d' = Inr ()) \<and>
        (\<forall>d' \<in> set [\<lparr>Dataset.path = ''s0''\<rparr>].
           check_dataset (Image_to_flat ?data) (length (axes ?m)) d' = Inr ()) \<and>
        map_of (Image_to_flat ?data) (''/'' @ lstrip_slash (Dataset.path \<lparr>Dataset.path = ''s1''\<rparr>)) =
          Some (ArraySpec [5]) \<and>
        length [5::nat] \<noteq> length (axes ?m)"
    unfolding flat by (simp add: check_dataset_def lstrip_slash_def)
  from rank_mismatch_error [THEN conjunct1, THEN mp, OF this, THEN conjunct2]
  show ?thesis
    by (simp add: ImageAttrs_dump_def example_attrs_def rank_mismatch_msg_def digit_char_def)
qed

theorem from_zarr_dataset_errors_witness:
  "from_zarr (example_group (example_store(''broken/s0'' := Absent))) =
     Inl (ValueError ''Expected to find an array at broken/s0, but no array was found there.'') \<and>
   from_zarr (example_group (example_store(''broken/s1'' := GroupNode empty_attrs (Some [])))) =
     Inl (ValueError ''Expected to find an array at broken/s1, but a group was found there instead.'') \<and>
   resolve_multiscales (example_group example_store) []
       (the (multiscales_entry example_attrs)) =
     Inr [(''/s0'', ArraySpec [10, 10]), (''/s1'', ArraySpec [5, 5])]"
proof -
  let ?m = "\<lparr>axes = [\<lparr>name = ''x'', axis_type = Some ''space'', unit = None\<rparr>,
                       \<lparr>name = ''y'', axis_type = Some ''space'', unit = None\<rparr>],
             datasets = [\<lparr>Dataset.path = ''s0''\<rparr>, \<lparr>Dataset.path = ''s1''\<rparr>]\<rparr>"
  let ?ga = "example_group (example_store(''broken/s0'' := Absent))"
  let ?gb = "example_group (example_store(''broken/s1'' := GroupNode empty_attrs (Some [])))"
  let ?g = "example_group example_store"
  have "ImageAttrs_validate (attrs ?ga) = Inr \<lparr>multiscales = [?m]\<rparr> \<and>
        multiscales \<lparr>multiscales = [?m]\<rparr> = [] @ ?m # [] \<and>
        datasets ?m = [] @ \<lparr>Dataset.path = ''s0''\<rparr> # [\<lparr>Dataset.path = ''s1''\<rparr>] \<and>
        (\<forall>m' \<in> set []. \<forall>d' \<in> set (datasets m').
           \<exists>sh. store ?ga (zarr_Group.path ?ga @ ''/'' @ Dataset.path d') = ArrayNode sh) \<and>
        (\<forall>d' \<in> set []. \<exists>sh. store ?ga (zarr_Group.path ?ga @ ''/'' @ Dataset.path d') = ArrayNode sh)"
    by (simp add: example_group_def example_attrs_def ImageAttrs_validate_def)
  from from_zarr_dataset_errors [THEN conjunct1, THEN mp, OF this, THEN conjunct1]
  have e0: "from_zarr ?ga = Inl (ValueError (no_array_msg ''broken/s0''))"
    by (simp add: example_group_def)
  have "ImageAttrs_validate (attrs ?gb) = Inr \<lparr>multiscales = [?m]\<rparr> \<and>
        multiscales \<lparr>multiscales = [?m]\<rparr> = [] @ ?m # [] \<and>
        datasets ?m = [\<lparr>Dataset.path = ''s0''\<rparr>] @ \<lparr>Dataset.path = ''s1''\<rparr> # [] \<and>
        (\<forall>m' \<in> set []. \<forall>d' \<in> set (datasets m').
           \<exists>sh. store ?gb (zarr_Group.path ?gb @ ''/'' @ Dataset.path d') = ArrayNode sh) \<and>
        (\<forall>d' \<in> set [\<lparr>Dataset.path = ''s0''\<rparr>].
           \<exists>sh. store ?gb (zarr_Group.path ?gb @ ''/'' @ Dataset.path d') = ArrayNode sh)"
    by (simp add: example_group_def example_attrs_def example_store_def ImageAttrs_validate_def)
  from from_zarr_dataset_errors [THEN conjunct1, THEN mp, OF this, THEN conjunct2]
  have e1: "from_zarr ?gb = Inl (ValueError (found_group_msg ''broken/s1''))"
    by (simp add: example_group_def)
  have ok: "resolve_multiscales ?g [] (the (multiscales_entry example_attrs)) =
     Inr [(''/s0'', ArraySpec [10, 10]), (''/s1'', ArraySpec [5, 5])]"
    by (simp add: example_group_def example_attrs_def example_store_def resolve_dataset_def
        open_array_def dict_set_def)
  from e0 e1 ok show ?thesis
    by (simp add: no_array_msg_def found_group_msg_def)
qed

theorem labels_opened_at_store_root_witness:
  "(\<exists>img l. from_zarr (example_group
                 (example_store(''labels'' := labels_node [''root''],
                                ''broken/labels'' := labels_node [''child'']))) = Inr img \<and>
      Image_labels img = Inr (Some l) \<and> labels (Labels.attributes l) = [''root'']) \<and>
   members_tree_flat_of (example_group example_store)
       \<lparr>multiscales = the (multiscales_entry example_attrs)\<rparr> =
     Inr [(''/s0'', ArraySpec [10, 10]), (''/s1'', ArraySpec [5, 5])]"
proof -
  let ?root = "example_group (example_store(''labels'' := labels_node [''root'']))"
  let ?both = "example_group (example_store(''labels'' := labels_node [''root''],
                                            ''broken/labels'' := labels_node [''child'']))"
  let ?mm = "\<lparr>multiscales = the (multiscales_entry example_attrs)\<rparr>"
  have "zarr_Group.path ?both = zarr_Group.path ?root \<and> attrs ?both = attrs ?root \<and>
    store ?both ''labels'' = store ?root ''labels'' \<and>
    (\<forall>m \<in> set (case multiscales_entry (attrs ?root) of None \<Rightarrow> [] | Some l \<Rightarrow> l).
       \<forall>d \<in> set (datasets m).
         store ?both (zarr_Group.path ?root @ ''/'' @ Dataset.path d) =
         store ?root (zarr_Group.path ?root @ ''/'' @ Dataset.path d))"
    by (simp add: example_group_def example_attrs_def)
  from labels_opened_at_store_root [THEN conjunct2, THEN conjunct2, THEN mp, OF this]
  have "from_zarr ?both = from_zarr ?root" .
  then have both: "from_zarr ?both =
     Inr \<lparr>attributes = \<lparr>multiscales = the (multiscales_entry example_attrs)\<rparr>,
          members = Some [(''labels'', GroupSpec \<lparr>multiscales_entry = None, labels_entry = Some [''root'']\<rparr> (Some [])),
                          (''s0'', ArraySpec [10, 10]), (''s1'', ArraySpec [5, 5])]\<rparr>"
    by (simp add: example_root_labels)
  have "store (example_group example_store) ''labels'' = Absent"
    by (simp add: example_group_def example_store_def)
  from labels_opened_at_store_root [THEN conjunct2, THEN conjunct1, THEN mp, OF this, of ?mm]
  have "members_tree_flat_of (example_group example_store) ?mm =
     Inr [(''/s0'', ArraySpec [10, 10]), (''/s1'', ArraySpec [5, 5])]"
    by (simp add: example_group_def example_attrs_def example_store_def resolve_dataset_def
        open_array_def dict_set_def)
  with both show ?thesis
    by (simp add: Image_labels_def Labels_init_def)
qed

text \<open>
  C4. A group at the path \<open>broken\<close> that has no child \<open>labels\<close>, in a store that holds a
  group \<open>labels\<close> at its root: \<open>from_zarr\<close> attaches the root's labels group and
  \<open>Image.labels\<close> is not \<open>None\<close>. A group that has a child \<open>labels\<close>, in a store with
  nothing at \<open>labels\<close>: the child is not looked at and \<open>Image.labels\<close> is \<open>None\<close>.
\<close>

theorem labels_not_taken_from_the_group:
  "store (example_group (example_store(''labels'' := labels_node [''root'']))) ''broken/labels'' = Absent \<and>
   (\<exists>img l. from_zarr (example_group (example_store(''labels'' := labels_node [''root'']))) = Inr img \<and>
        Image_labels img = Inr (Some l) \<and> labels (Labels.attributes l) = [''root'']) \<and>
   store (example_group (example_store(''broken/labels'' := labels_node [''child''])))
      ''broken/labels'' = labels_node [''child''] \<and>
   (\<exists>img. from_zarr (example_group (example_store(''broken/labels'' := labels_node [''child'']))) = Inr img \<and>
        Image_labels img = Inr None)"
  by (simp add: example_root_labels example_child_labels Image_labels_def Labels_init_def)
     (simp add: example_group_def example_store_def)

end
